theory Spec2Isabelle
  imports Main
begin

section \<open>The state of the Pomodoro timer\<close>

text \<open>
  The embedding follows \<^verbatim>\<open>src/pomodoro_timer.py\<close>. The fields of the class
  \<^verbatim>\<open>PomodoroTimer\<close> keep their names. Python integers are unbounded, so they are
  \<open>int\<close>. The mode is the string the source stores in \<^verbatim>\<open>current_mode\<close>. Of the widgets
  only what the methods write is kept: the text of the two labels, the state of the three
  buttons whose state the code sets, and the text of the pause button. The worker threads
  that \<^verbatim>\<open>start_timer\<close> spawns are a list of program counters into \<^verbatim>\<open>run_timer\<close>.
\<close>

datatype button_state = Normal | Disabled

text \<open>
  A program counter of a worker thread: the line of \<^verbatim>\<open>run_timer\<close> it executes next
  (lines 187 to 197 of the source), \<open>Done\<close> once the outer loop has ended, or \<open>Raised\<close> once
  an exception that nothing catches has ended the thread.
\<close>

datatype pc = L187 | L188 | L189 | L190 | L191 | L192 | L194 | L196 | L197 | Done | Raised

record timer =
  pomodoro_time :: int
  short_break_time :: int
  long_break_time :: int
  time_left :: int
  timer_running :: bool
  timer_paused :: bool
  pomodoro_count :: int
  current_mode :: string
  time_label :: string
  mode_label :: string
  start_button :: button_state
  pause_button :: button_state
  pause_button_text :: string
  custom_button :: button_state
  threads :: "pc list"

text \<open>
  The \<^verbatim>\<open>ValueError\<close>s of the program: the two that \<^verbatim>\<open>set_custom_time\<close> raises itself, the
  one of \<^verbatim>\<open>int\<close> on a segment it does not accept, and the one of the conversion of an
  integer of too many digits to text.
\<close>

datatype value_error =
  Invalid_time_format | Int_value_error string | Time_must_be_greater_than_zero
  | Exceeds_digit_limit

section \<open>Formatting the display\<close>

text \<open>
  The interpreter converts between text and integers of at most this many decimal digits
  (the default of \<^verbatim>\<open>sys.get_int_max_str_digits()\<close>); beyond it both \<^verbatim>\<open>int\<close> on a text
  and the formatting of an integer raise \<^verbatim>\<open>ValueError\<close>.
\<close>

definition int_max_str_digits :: nat where
  "int_max_str_digits = 4300"

definition digit_char :: "nat \<Rightarrow> char" where
  "digit_char d = ''0123456789'' ! d"

text \<open>The decimal digits of a natural number, as \<^verbatim>\<open>str\<close> prints them.\<close>

fun dec :: "nat \<Rightarrow> string" where
  "dec n = (if n < 10 then [digit_char n] else dec (n div 10) @ [digit_char (n mod 10)])"

declare dec.simps [simp del]

text \<open>
  The format \<^verbatim>\<open>{:02d}\<close>: the sign of a negative number, then its digits, padded with
  zeros to a total width of two; \<open>None\<close> when the number has more digits than the
  interpreter converts, where the formatting raises \<^verbatim>\<open>ValueError\<close>.
\<close>

definition fmt02 :: "int \<Rightarrow> string option" where
  "fmt02 n =
     (if int_max_str_digits < length (dec (nat \<bar>n\<bar>)) then None
      else Some (if n < 0 then CHR ''-'' # dec (nat (- n))
                 else if n < 10 then CHR ''0'' # dec (nat n)
                 else dec (nat n)))"

text \<open>
  The text of line 203. Python's \<^verbatim>\<open>divmod\<close> rounds towards minus infinity, as \<open>div\<close> and
  \<open>mod\<close> on \<open>int\<close> do.
\<close>

definition display_text :: "int \<Rightarrow> string option" where
  "display_text t =
     (let hours = t div 3600; remainder = t mod 3600;
          mins = remainder div 60; secs = remainder mod 60
      in case fmt02 hours of None \<Rightarrow> None
         | Some h \<Rightarrow> (case fmt02 mins of None \<Rightarrow> None
            | Some m \<Rightarrow> (case fmt02 secs of None \<Rightarrow> None
               | Some sec \<Rightarrow> Some (h @ '':'' @ m @ '':'' @ sec))))"

text \<open>
  \<^verbatim>\<open>update_time_display\<close>, lines 199 to 204: the state with the new text of the time label,
  or \<open>None\<close> when the formatting raises, which happens before the label is written.
\<close>

definition update_time_display :: "timer \<Rightarrow> timer option" where
  "update_time_display s =
     (case display_text (time_left s) of None \<Rightarrow> None
      | Some text \<Rightarrow> Some (s\<lparr>time_label := text\<rparr>))"

section \<open>The methods\<close>

text \<open>The state after \<^verbatim>\<open>__init__\<close> and \<^verbatim>\<open>setup_ui\<close>, lines 37 to 155.\<close>

definition init :: timer where
  "init = \<lparr>pomodoro_time = 25 * 60, short_break_time = 5 * 60, long_break_time = 30 * 60,
     time_left = 25 * 60, timer_running = False, timer_paused = False, pomodoro_count = 0,
     current_mode = ''Pomodoro'', time_label = ''00:25:00'', mode_label = ''Pomodoro'',
     start_button = Normal, pause_button = Disabled, pause_button_text = ''Pause'',
     custom_button = Normal, threads = []\<rparr>"

text \<open>\<^verbatim>\<open>start_timer\<close>, lines 176 to 183. The new thread starts at the head of \<^verbatim>\<open>run_timer\<close>.\<close>

definition start_timer :: "timer \<Rightarrow> timer" where
  "start_timer s =
     (if \<not> timer_running s
      then s\<lparr>timer_running := True, start_button := Disabled, pause_button := Normal,
             custom_button := Disabled, threads := threads s @ [L187]\<rparr>
      else s)"

text \<open>
  \<^verbatim>\<open>timer_finished\<close>, lines 206 to 223: the exception that leaves the method, if any, and
  the state it leaves behind. When \<^verbatim>\<open>update_time_display\<close> raises at line 221 the fields
  are already written and only the time label is not. The notification and the alert
  sound (lines 222 and 223) write no field and are left out.
\<close>

definition timer_finished :: "timer \<Rightarrow> value_error option \<times> timer" where
  "timer_finished s =
     (let s1 =
        (if current_mode s = ''Pomodoro''
         then (let s0 = s\<lparr>pomodoro_count := pomodoro_count s + 1\<rparr>
               in if pomodoro_count s0 mod 4 = 0
                  then s0\<lparr>current_mode := ''Long Break'', time_left := long_break_time s0\<rparr>
                  else s0\<lparr>current_mode := ''Short Break'', time_left := short_break_time s0\<rparr>)
         else s\<lparr>current_mode := ''Pomodoro'', time_left := pomodoro_time s\<rparr>);
          s2 = s1\<lparr>mode_label := current_mode s1\<rparr>
      in case update_time_display s2 of
           None \<Rightarrow> (Some Exceeds_digit_limit, s2)
         | Some s3 \<Rightarrow> (None, s3))"

text \<open>\<^verbatim>\<open>pause_timer\<close>, lines 247 to 254.\<close>

definition pause_timer :: "timer \<Rightarrow> timer" where
  "pause_timer s =
     (if timer_paused s
      then s\<lparr>timer_paused := False, pause_button_text := ''Pause''\<rparr>
      else s\<lparr>timer_paused := True, pause_button_text := ''Unpause''\<rparr>)"

text \<open>
  \<^verbatim>\<open>reset_timer\<close>, lines 256 to 267: the exception that leaves the method, if any, and the
  state it leaves behind. When \<^verbatim>\<open>update_time_display\<close> raises at line 263, lines 264 to
  267 do not run.
\<close>

definition reset_timer :: "timer \<Rightarrow> value_error option \<times> timer" where
  "reset_timer s =
     (let s1 = s\<lparr>timer_running := False, timer_paused := False,
                 time_left := pomodoro_time s, current_mode := ''Pomodoro'',
                 pomodoro_count := 0\<rparr>
      in case update_time_display s1 of
           None \<Rightarrow> (Some Exceeds_digit_limit, s1)
         | Some s2 \<Rightarrow>
             (None, s2\<lparr>mode_label := current_mode s2, start_button := Normal,
                       pause_button := Disabled, pause_button_text := ''Pause'',
                       custom_button := Normal\<rparr>))"

section \<open>Reading the custom time\<close>

text \<open>
  \<^verbatim>\<open>str.split(":")\<close>: the pieces between the colons, in order. The result is never
  empty: a text without a colon is its own single piece.
\<close>

fun split_colon :: "string \<Rightarrow> string list" where
  "split_colon [] = [[]]"
| "split_colon (c # cs) =
     (if c = CHR '':'' then [] # split_colon cs
      else (case split_colon cs of [] \<Rightarrow> [[c]] | p # ps \<Rightarrow> (c # p) # ps))"

text \<open>
  Python's \<^verbatim>\<open>int\<close> on a string, base ten: white space around the number is dropped, one
  sign may come first, the digits may be parted by single underscores, and there are at
  most \<open>int_max_str_digits\<close> digits, leading zeros counted. A character is a code point
  below 256: there the white space of \<^verbatim>\<open>int\<close> is the six characters of ASCII, the next
  line character \<open>0x85\<close> and the no-break space \<open>0xA0\<close>, and the decimal digits are those of
  ASCII. \<open>None\<close> is the \<^verbatim>\<open>ValueError\<close> of \<^verbatim>\<open>int\<close>.
\<close>

definition is_space :: "char \<Rightarrow> bool" where
  "is_space c =
     (c \<in> set [CHR '' '', CHR 0x09, CHR 0x0A, CHR 0x0B, CHR 0x0C, CHR 0x0D, CHR 0x85, CHR 0xA0])"

definition strip :: "string \<Rightarrow> string" where
  "strip s = rev (dropWhile is_space (rev (dropWhile is_space s)))"

definition digit_val :: "char \<Rightarrow> nat option" where
  "digit_val = map_of [(CHR ''0'', 0), (CHR ''1'', 1), (CHR ''2'', 2), (CHR ''3'', 3),
     (CHR ''4'', 4), (CHR ''5'', 5), (CHR ''6'', 6), (CHR ''7'', 7), (CHR ''8'', 8),
     (CHR ''9'', 9)]"

text \<open>The digits after the first one; \<open>acc\<close> is the value read so far.\<close>

fun py_digits :: "nat \<Rightarrow> string \<Rightarrow> nat option" where
  "py_digits acc [] = Some acc"
| "py_digits acc [c] =
     (case digit_val c of None \<Rightarrow> None | Some v \<Rightarrow> Some (10 * acc + v))"
| "py_digits acc (c # d # cs) =
     (if c = CHR ''_''
      then (case digit_val d of None \<Rightarrow> None | Some v \<Rightarrow> py_digits (10 * acc + v) cs)
      else (case digit_val c of None \<Rightarrow> None
            | Some v \<Rightarrow> py_digits (10 * acc + v) (d # cs)))"

text \<open>The number without its sign: the limit counts the digits, not the underscores.\<close>

definition py_nat :: "string \<Rightarrow> nat option" where
  "py_nat s =
     (if int_max_str_digits < length (filter (\<lambda>c. c \<noteq> CHR ''_'') s) then None
      else (case s of [] \<Rightarrow> None
            | c # cs \<Rightarrow> (case digit_val c of None \<Rightarrow> None | Some v \<Rightarrow> py_digits v cs)))"

definition py_int :: "string \<Rightarrow> int option" where
  "py_int s =
     (case strip s of [] \<Rightarrow> None
      | c # cs \<Rightarrow>
          if c = CHR ''-'' then map_option (\<lambda>n. - int n) (py_nat cs)
          else if c = CHR ''+'' then map_option int (py_nat cs)
          else map_option int (py_nat (c # cs)))"

text \<open>\<^verbatim>\<open>map(int, time_parts)\<close>, unpacked in order: the first segment that fails raises.\<close>

fun map_int :: "string list \<Rightarrow> value_error + int list" where
  "map_int [] = Inr []"
| "map_int (p # ps) =
     (case py_int p of None \<Rightarrow> Inl (Int_value_error p)
      | Some v \<Rightarrow> (case map_int ps of Inl e \<Rightarrow> Inl e | Inr vs \<Rightarrow> Inr (v # vs)))"

text \<open>Lines 272 to 277: the total number of seconds, or the error raised on the way.\<close>

definition parse_time :: "string \<Rightarrow> value_error + int" where
  "parse_time entry =
     (let time_parts = split_colon entry
      in if length time_parts \<noteq> 3 then Inl Invalid_time_format
         else (case map_int time_parts of
                 Inl e \<Rightarrow> Inl e
               | Inr [hours, minutes, seconds] \<Rightarrow> Inr (hours * 3600 + minutes * 60 + seconds)
               | Inr _ \<Rightarrow> Inl Invalid_time_format))"

text \<open>
  \<^verbatim>\<open>set_custom_time\<close>, lines 269 to 285, on the text of the entry. The first component is
  the error shown in the message box, \<open>None\<close> when there is none. The \<^verbatim>\<open>try\<close> block holds
  line 281 as well: when \<^verbatim>\<open>update_time_display\<close> raises there, line 280 has assigned the
  time left, and the handler of line 284 shows the box.
\<close>

definition set_custom_time :: "string \<Rightarrow> timer \<Rightarrow> value_error option \<times> timer" where
  "set_custom_time entry s =
     (case parse_time entry of
        Inl e \<Rightarrow> (Some e, s)
      | Inr total_seconds \<Rightarrow>
          if total_seconds > 0
          then (let s1 = s\<lparr>time_left := total_seconds\<rparr>
                in case update_time_display s1 of
                     None \<Rightarrow> (Some Exceeds_digit_limit, s1)
                   | Some s2 \<Rightarrow> (None, s2))
          else (Some Time_must_be_greater_than_zero, s))"

text \<open>
  \<^verbatim>\<open>format_custom_time\<close>, lines 165 to 174, on the text of the entry: the handler of a
  key release takes the colons out and puts one before the third and the fifth character.
\<close>

definition format_custom_time :: "string \<Rightarrow> string" where
  "format_custom_time entry =
     (let current = filter (\<lambda>c. c \<noteq> CHR '':'') entry
      in concat (map (\<lambda>(i, char). if i \<in> set [2, 4] \<and> length current > i
                                  then [CHR '':'', char] else [char])
                     (enumerate 0 current)))"

section \<open>The worker thread and the events of the program\<close>

text \<open>
  One statement of \<^verbatim>\<open>run_timer\<close>, lines 185 to 197, executed by a thread at the given
  line: the next line and the new state. A test reads the fields at the moment it runs;
  the two \<^verbatim>\<open>time.sleep\<close> calls change nothing and only let other code run. Nothing in
  \<^verbatim>\<open>run_timer\<close> catches an exception of lines 190 and 197, so it ends the thread.
\<close>

fun thread_step :: "pc \<Rightarrow> timer \<Rightarrow> pc \<times> timer" where
  "thread_step L187 s = (if timer_running s then L188 else Done, s)"
| "thread_step L188 s = (if time_left s > 0 \<and> timer_running s then L189 else L196, s)"
| "thread_step L189 s = (if \<not> timer_paused s then L190 else L194, s)"
| "thread_step L190 s =
     (case update_time_display s of None \<Rightarrow> (Raised, s) | Some s' \<Rightarrow> (L191, s'))"
| "thread_step L191 s = (L192, s)"
| "thread_step L192 s = (L188, s\<lparr>time_left := time_left s - 1\<rparr>)"
| "thread_step L194 s = (L188, s)"
| "thread_step L196 s = (if timer_running s then L197 else L187, s)"
| "thread_step L197 s =
     (if fst (timer_finished s) = None then L187 else Raised, snd (timer_finished s))"
| "thread_step Done s = (Done, s)"
| "thread_step Raised s = (Raised, s)"


text \<open>The \<open>i\<close>-th worker thread executes one statement.\<close>

definition run_thread :: "nat \<Rightarrow> timer \<Rightarrow> timer" where
  "run_thread i s =
     (if i < length (threads s)
      then (case thread_step (threads s ! i) s of
              (l, s') \<Rightarrow> s'\<lparr>threads := (threads s')[i := l]\<rparr>)
      else s)"

text \<open>
  What can happen in the running program: a click on one of the four buttons, with the
  text of the entry for the last one, or a statement of a worker thread. A button whose
  state is \<open>Disabled\<close> does not call its command; the reset button is never disabled. An
  exception that leaves a command is reported by the window toolkit and the program goes
  on with the state the command left behind.
\<close>

datatype event = Click_start | Click_pause | Click_reset | Click_custom string | Thread nat

fun step :: "event \<Rightarrow> timer \<Rightarrow> timer" where
  "step Click_start s = (if start_button s = Normal then start_timer s else s)"
| "step Click_pause s = (if pause_button s = Normal then pause_timer s else s)"
| "step Click_reset s = snd (reset_timer s)"
| "step (Click_custom entry) s =
     (if custom_button s = Normal then snd (set_custom_time entry s) else s)"
| "step (Thread i) s = run_thread i s"

text \<open>The events happen one after the other, the first of the list first.\<close>

fun run :: "event list \<Rightarrow> timer \<Rightarrow> timer" where
  "run [] s = s"
| "run (e # es) s = run es (step e s)"

inductive reachable :: "timer \<Rightarrow> bool" where
  reachable_init: "reachable init"
| reachable_step: "reachable s \<Longrightarrow> reachable (step e s)"

text \<open>
  The methods called one after the other in any order, whatever the state of the buttons,
  with statements of \<^verbatim>\<open>run_timer\<close> in between, executed at any line by a thread of the list
  or by another one: the states of the object when other code than the window calls the
  methods. Every state the program reaches is among them.
\<close>

inductive serial :: "timer \<Rightarrow> bool" where
  serial_init: "serial init"
| serial_start: "serial s \<Longrightarrow> serial (start_timer s)"
| serial_pause: "serial s \<Longrightarrow> serial (pause_timer s)"
| serial_reset: "serial s \<Longrightarrow> serial (snd (reset_timer s))"
| serial_custom: "serial s \<Longrightarrow> serial (snd (set_custom_time entry s))"
| serial_statement: "serial s \<Longrightarrow> serial (snd (thread_step l s))"
| serial_thread: "serial s \<Longrightarrow> serial (run_thread i s)"

section \<open>Notions used in the proofs\<close>

text \<open>A text of decimal digits only, and the number it denotes after the value \<open>acc\<close>.\<close>

abbreviation all_digits :: "string \<Rightarrow> bool" where
  "all_digits ds \<equiv> (\<forall>c \<in> set ds. digit_val c \<noteq> None)"

abbreviation digits_value :: "nat \<Rightarrow> string \<Rightarrow> nat" where
  "digits_value acc ds \<equiv> foldl (\<lambda>a c. 10 * a + the (digit_val c)) acc ds"

section \<open>Frame and invariants\<close>

lemma display_defaults:
  shows "display_text 1500 = Some ''00:25:00''"
    and "display_text 300 = Some ''00:05:00''"
    and "display_text 1800 = Some ''00:30:00''"
    and "display_text 1499 = Some ''00:24:59''"
    and "display_text 1 = Some ''00:00:01''"
  by (simp_all add: display_text_def fmt02_def dec.simps digit_char_def int_max_str_digits_def)

lemma reset_timer_default:
  assumes "pomodoro_time s = 1500"
  shows "reset_timer s =
     (None, s\<lparr>timer_running := False, timer_paused := False, time_left := 1500,
               current_mode := ''Pomodoro'', pomodoro_count := 0, time_label := ''00:25:00'',
               mode_label := ''Pomodoro'', start_button := Normal, pause_button := Disabled,
               pause_button_text := ''Pause'', custom_button := Normal\<rparr>)"
  using assms by (simp add: reset_timer_def update_time_display_def display_defaults)


lemma timer_finished_frame:
  shows "pomodoro_time (snd (timer_finished s)) = pomodoro_time s"
    and "short_break_time (snd (timer_finished s)) = short_break_time s"
    and "long_break_time (snd (timer_finished s)) = long_break_time s"
    and "timer_running (snd (timer_finished s)) = timer_running s"
    and "timer_paused (snd (timer_finished s)) = timer_paused s"
    and "start_button (snd (timer_finished s)) = start_button s"
    and "pause_button (snd (timer_finished s)) = pause_button s"
    and "pause_button_text (snd (timer_finished s)) = pause_button_text s"
    and "custom_button (snd (timer_finished s)) = custom_button s"
    and "threads (snd (timer_finished s)) = threads s"
  by (simp_all add: timer_finished_def update_time_display_def Let_def split: option.splits)

lemma thread_step_frame:
  shows "pomodoro_time (snd (thread_step l s)) = pomodoro_time s"
    and "short_break_time (snd (thread_step l s)) = short_break_time s"
    and "long_break_time (snd (thread_step l s)) = long_break_time s"
    and "timer_running (snd (thread_step l s)) = timer_running s"
    and "timer_paused (snd (thread_step l s)) = timer_paused s"
    and "start_button (snd (thread_step l s)) = start_button s"
    and "pause_button (snd (thread_step l s)) = pause_button s"
    and "pause_button_text (snd (thread_step l s)) = pause_button_text s"
    and "custom_button (snd (thread_step l s)) = custom_button s"
    and "threads (snd (thread_step l s)) = threads s"
  by (cases l; simp add: timer_finished_frame update_time_display_def split: option.splits)+

lemma run_thread_frame:
  shows "pomodoro_time (run_thread i s) = pomodoro_time s"
    and "short_break_time (run_thread i s) = short_break_time s"
    and "long_break_time (run_thread i s) = long_break_time s"
    and "timer_running (run_thread i s) = timer_running s"
    and "timer_paused (run_thread i s) = timer_paused s"
    and "start_button (run_thread i s) = start_button s"
    and "pause_button (run_thread i s) = pause_button s"
    and "pause_button_text (run_thread i s) = pause_button_text s"
    and "custom_button (run_thread i s) = custom_button s"
  by (cases "thread_step (threads s ! i) s";
      use thread_step_frame [of "threads s ! i" s] in \<open>simp add: run_thread_def\<close>)+

lemma set_custom_time_frame:
  shows "pomodoro_time (snd (set_custom_time entry s)) = pomodoro_time s"
    and "short_break_time (snd (set_custom_time entry s)) = short_break_time s"
    and "long_break_time (snd (set_custom_time entry s)) = long_break_time s"
    and "timer_running (snd (set_custom_time entry s)) = timer_running s"
    and "timer_paused (snd (set_custom_time entry s)) = timer_paused s"
    and "start_button (snd (set_custom_time entry s)) = start_button s"
    and "pause_button (snd (set_custom_time entry s)) = pause_button s"
    and "pause_button_text (snd (set_custom_time entry s)) = pause_button_text s"
    and "custom_button (snd (set_custom_time entry s)) = custom_button s"
    and "current_mode (snd (set_custom_time entry s)) = current_mode s"
    and "pomodoro_count (snd (set_custom_time entry s)) = pomodoro_count s"
    and "threads (snd (set_custom_time entry s)) = threads s"
  by (simp_all add: set_custom_time_def update_time_display_def Let_def
      split: sum.splits option.splits)

lemma reset_timer_durations:
  shows "pomodoro_time (snd (reset_timer s)) = pomodoro_time s"
    and "short_break_time (snd (reset_timer s)) = short_break_time s"
    and "long_break_time (snd (reset_timer s)) = long_break_time s"
  by (simp_all add: reset_timer_def update_time_display_def Let_def split: option.splits)

lemma reachable_run: "reachable s \<Longrightarrow> reachable (run es s)"
  by (induction es arbitrary: s) (auto intro: reachable_step)

lemma reachable_durations:
  assumes "reachable s"
  shows "pomodoro_time s = 1500 \<and> short_break_time s = 300 \<and> long_break_time s = 1800"
  using assms
proof (induction rule: reachable.induct)
  case reachable_init
  show ?case by (simp add: init_def)
next
  case (reachable_step s e)
  then show ?case
    by (cases e)
      (simp_all add: start_timer_def pause_timer_def reset_timer_durations
        set_custom_time_frame run_thread_frame)
qed

lemma serial_durations:
  assumes "serial s"
  shows "pomodoro_time s = 1500 \<and> short_break_time s = 300 \<and> long_break_time s = 1800"
  using assms
proof (induction rule: serial.induct)
  case serial_init
  show ?case by (simp add: init_def)
next
  case (serial_start s)
  then show ?case by (simp add: start_timer_def)
next
  case (serial_pause s)
  then show ?case by (simp add: pause_timer_def)
next
  case (serial_reset s)
  then show ?case by (simp add: reset_timer_durations)
next
  case (serial_custom s entry)
  then show ?case by (simp add: set_custom_time_frame)
next
  case (serial_statement s l)
  then show ?case by (simp add: thread_step_frame)
next
  case (serial_thread s i)
  then show ?case by (simp add: run_thread_frame)
qed

lemma reachable_serial: "reachable s \<Longrightarrow> serial s"
proof (induction rule: reachable.induct)
  case reachable_init
  show ?case by (rule serial_init)
next
  case (reachable_step s e)
  then show ?case
    by (cases e) (auto intro: serial.intros)
qed

lemma reachable_buttons:
  assumes "reachable s"
  shows "(timer_paused s \<longrightarrow> timer_running s) \<and> (pause_button s = Normal \<longleftrightarrow> timer_running s)
    \<and> (start_button s = Normal \<longleftrightarrow> \<not> timer_running s)
    \<and> (custom_button s = Normal \<longleftrightarrow> \<not> timer_running s)
    \<and> pause_button_text s = (if timer_paused s then ''Unpause'' else ''Pause'')"
  using assms
proof (induction rule: reachable.induct)
  case reachable_init
  show ?case by (simp add: init_def)
next
  case (reachable_step s e)
  have d: "pomodoro_time s = 1500"
    using reachable_durations [OF reachable_step.hyps] by simp
  show ?case
    using reachable_step.IH
    by (cases e)
      (auto simp add: start_timer_def pause_timer_def reset_timer_default [OF d]
        set_custom_time_frame run_thread_frame)
qed

section \<open>Display and entry text\<close>

lemma digit_val_digit_char: "d < 10 \<Longrightarrow> digit_val (digit_char d) = Some d"
proof -
  assume "d < 10"
  then have "d \<in> {0, 1, 2, 3, 4, 5, 6, 7, 8, 9}" by auto
  then show ?thesis
    by (auto simp: digit_val_def digit_char_def)
qed

lemma digit_val_plain:
  assumes "digit_val c = Some v"
  shows "c \<noteq> CHR '':''" and "c \<noteq> CHR ''-''" and "c \<noteq> CHR ''+''" and "c \<noteq> CHR ''_''"
    and "\<not> is_space c"
  using assms by (auto simp: digit_val_def is_space_def split: if_splits)

lemma digit_val_zero: "digit_val (CHR ''0'') = Some 0"
  by (simp add: digit_val_def)

lemma digit_val_nine: "digit_val (CHR ''9'') = Some 9"
  by (simp add: digit_val_def)

lemma dec_digits: "all_digits (dec n)"
proof (induction n rule: dec.induct)
  case (1 n)
  show ?case
  proof (cases "n < 10")
    case True
    then show ?thesis by (subst dec.simps) (simp add: digit_val_digit_char)
  next
    case False
    then have "all_digits (dec (n div 10))" using 1 by simp
    moreover have "digit_val (digit_char (n mod 10)) \<noteq> None"
      by (simp add: digit_val_digit_char)
    ultimately show ?thesis using False by (subst dec.simps) auto
  qed
qed

lemma dec_nonempty: "dec n \<noteq> []"
  by (subst dec.simps) simp

lemma dec_value: "digits_value 0 (dec n) = n"
proof (induction n rule: dec.induct)
  case (1 n)
  show ?case
  proof (cases "n < 10")
    case True
    then show ?thesis by (subst dec.simps) (simp add: digit_val_digit_char)
  next
    case False
    then have "digits_value 0 (dec (n div 10)) = n div 10" using 1 by simp
    then show ?thesis using False
      by (subst dec.simps) (simp add: digit_val_digit_char)
  qed
qed

text \<open>A number below \<open>10 ^ k\<close> has at most \<open>k\<close> digits, and \<open>10 ^ k\<close> has one more.\<close>

lemma length_dec_le: "0 < k \<Longrightarrow> n < 10 ^ k \<Longrightarrow> length (dec n) \<le> k"
proof (induction n arbitrary: k rule: dec.induct)
  case (1 n)
  show ?case
  proof (cases "n < 10")
    case True
    then show ?thesis using "1.prems" by (subst dec.simps) simp
  next
    case False
    obtain j where k: "k = Suc j" using "1.prems"(1) by (cases k) auto
    have "j \<noteq> 0" using False "1.prems"(2) k by (cases j) auto
    moreover have "n div 10 < 10 ^ j"
      using "1.prems"(2) k by (simp add: less_mult_imp_div_less mult.commute)
    ultimately have "length (dec (n div 10)) \<le> j"
      using "1.IH" [of j] False by simp
    then show ?thesis using False k by (subst dec.simps) simp
  qed
qed

lemma length_dec_power: "length (dec (10 ^ k)) = Suc k"
proof (induction k)
  case 0
  show ?case by (simp add: dec.simps)
next
  case (Suc k)
  have "\<not> (10::nat) ^ Suc k < 10" by simp
  then show ?case using Suc by (subst dec.simps) simp
qed

lemma py_digits_value: "all_digits ds \<Longrightarrow> py_digits acc ds = Some (digits_value acc ds)"
proof (induction acc ds rule: py_digits.induct)
  case (1 acc)
  then show ?case by simp
next
  case (2 acc c)
  then show ?case by auto
next
  case (3 acc c d cs)
  then obtain v where v: "digit_val c = Some v" by auto
  then have "c \<noteq> CHR ''_''" by (rule digit_val_plain)
  then show ?case using 3 v by auto
qed

lemma filter_digits: "all_digits ds \<Longrightarrow> filter (\<lambda>c. c \<noteq> CHR ''_'') ds = ds"
  using digit_val_plain(4) by (induction ds) auto

lemma py_nat_value:
  assumes "all_digits ds" "ds \<noteq> []" "length ds \<le> int_max_str_digits"
  shows "py_nat ds = Some (digits_value 0 ds)"
proof -
  obtain c cs where ds: "ds = c # cs" using assms(2) by (cases ds) auto
  then obtain v where v: "digit_val c = Some v" using assms(1) by auto
  have cs: "all_digits cs" using assms(1) ds by simp
  have "\<not> int_max_str_digits < length (filter (\<lambda>c. c \<noteq> CHR ''_'') ds)"
    using assms(3) filter_digits [OF assms(1)] by simp
  then show ?thesis
    unfolding py_nat_def using ds v py_digits_value [OF cs, of v] by simp
qed

lemma strip_digits:
  assumes "all_digits ds"
  shows "strip ds = ds"
proof -
  have ns: "\<forall>c \<in> set ds. \<not> is_space c"
    using assms digit_val_plain(5) by fastforce
  then have "dropWhile is_space ds = ds"
    by (cases ds) auto
  moreover have "dropWhile is_space (rev ds) = rev ds"
    using ns by (cases "rev ds") (auto dest: arg_cong [where f = set])
  ultimately show ?thesis by (simp add: strip_def)
qed

lemma py_int_digits:
  assumes "all_digits ds" "ds \<noteq> []" "length ds \<le> int_max_str_digits"
  shows "py_int ds = Some (int (digits_value 0 ds))"
proof -
  obtain c cs where ds: "ds = c # cs" using assms(2) by (cases ds) auto
  then obtain v where v: "digit_val c = Some v" using assms(1) by auto
  have "c \<noteq> CHR ''-''" "c \<noteq> CHR ''+''" using v by (rule digit_val_plain)+
  then show ?thesis
    using py_nat_value [OF assms] strip_digits [OF assms(1)] ds by (simp add: py_int_def)
qed

lemma two_le_max: "2 \<le> int_max_str_digits"
  by (simp add: int_max_str_digits_def)

lemma fmt02_digits:
  assumes "0 \<le> n" "fmt02 n = Some t"
  shows "all_digits t" and "t \<noteq> []" and "digits_value 0 t = nat n"
    and "length t \<le> int_max_str_digits"
proof -
  have len: "length (dec (nat n)) \<le> int_max_str_digits"
    using assms by (simp add: fmt02_def split: if_splits)
  have t: "t = (if n < 10 then CHR ''0'' # dec (nat n) else dec (nat n))"
    using assms by (simp add: fmt02_def split: if_splits)
  show "all_digits t" using t dec_digits [of "nat n"] by (simp add: digit_val_zero)
  show "t \<noteq> []" using t dec_nonempty [of "nat n"] by simp
  show "digits_value 0 t = nat n" using t by (simp add: dec_value digit_val_zero)
  show "length t \<le> int_max_str_digits"
  proof (cases "n < 10")
    case True
    then have "nat n < 10" using assms(1) by simp
    then have "length (dec (nat n)) = 1" by (subst dec.simps) simp
    then show ?thesis using t True two_le_max by simp
  next
    case False
    then show ?thesis using t len by simp
  qed
qed

lemma fmt02_fits:
  assumes "0 \<le> n" "n < 10 ^ int_max_str_digits"
  shows "\<exists>t. fmt02 n = Some t"
proof -
  have "nat n < 10 ^ int_max_str_digits"
    using assms by (simp add: nat_less_iff)
  moreover have "0 < int_max_str_digits" by (simp add: int_max_str_digits_def)
  ultimately have "length (dec (nat n)) \<le> int_max_str_digits"
    using length_dec_le by blast
  then show ?thesis using assms(1) by (simp add: fmt02_def)
qed

lemma sixty_fits: "(60::int) < 10 ^ int_max_str_digits"
proof -
  have "(10::int) ^ 2 \<le> 10 ^ int_max_str_digits"
    by (rule power_increasing [OF two_le_max]) simp
  then show ?thesis by simp
qed

lemma py_int_fmt02: "0 \<le> n \<Longrightarrow> fmt02 n = Some t \<Longrightarrow> py_int t = Some n"
  using py_int_digits [of t] fmt02_digits [of n t] by simp

lemma fmt02_no_colon: "0 \<le> n \<Longrightarrow> fmt02 n = Some t \<Longrightarrow> CHR '':'' \<notin> set t"
  using fmt02_digits(1) [of n t] digit_val_plain(1) by fastforce

lemma split_colon_plain: "CHR '':'' \<notin> set x \<Longrightarrow> split_colon x = [x]"
  by (induction x) auto

lemma split_colon_append:
  "CHR '':'' \<notin> set x \<Longrightarrow> split_colon (x @ CHR '':'' # rest) = x # split_colon rest"
  by (induction x) auto

lemma split_colon_three:
  assumes "CHR '':'' \<notin> set a" "CHR '':'' \<notin> set b" "CHR '':'' \<notin> set c"
  shows "split_colon (a @ '':'' @ b @ '':'' @ c) = [a, b, c]"
  using assms by (simp add: split_colon_append split_colon_plain)

lemma hms_sum: "r div 3600 * 3600 + r mod 3600 div 60 * 60 + r mod 3600 mod 60 = (r::int)"
proof -
  have "r mod 3600 div 60 * 60 + r mod 3600 mod 60 = r mod 3600" by simp
  moreover have "r div 3600 * 3600 + r mod 3600 = r" by simp
  ultimately show ?thesis by linarith
qed

lemma hms_bounds:
  assumes "0 \<le> (r::int)"
  shows "0 \<le> r div 3600" and "0 \<le> r mod 3600 div 60" and "r mod 3600 div 60 < 60"
    and "0 \<le> r mod 3600 mod 60" and "r mod 3600 mod 60 < 60"
    and "r mod 3600 mod 60 = r mod 60"
proof -
  show "0 \<le> r div 3600" using assms by (simp add: pos_imp_zdiv_nonneg_iff)
  have "0 \<le> r mod 3600" by simp
  then show "0 \<le> r mod 3600 div 60" by (simp add: pos_imp_zdiv_nonneg_iff)
  have "r mod 3600 < 3600" by simp
  then show "r mod 3600 div 60 < 60" by linarith
  show "0 \<le> r mod 3600 mod 60" by simp
  show "r mod 3600 mod 60 < 60" by simp
  show "r mod 3600 mod 60 = r mod 60" by (rule mod_mod_cancel) simp
qed

text \<open>
  The text of a time that is not negative and whose hours the interpreter converts: the
  three numbers in the format of two digits, read back by \<^verbatim>\<open>set_custom_time\<close> as that time.
\<close>

lemma display_text_fits:
  assumes "0 \<le> r" "r div 3600 < 10 ^ int_max_str_digits"
  shows "\<exists>text. display_text r = Some text \<and> parse_time text = Inr r"
proof -
  let ?h = "r div 3600" and ?m = "r mod 3600 div 60" and ?s = "r mod 3600 mod 60"
  note b = hms_bounds [OF assms(1)]
  obtain h where h: "fmt02 ?h = Some h" using fmt02_fits [OF b(1) assms(2)] by blast
  have "?m < 10 ^ int_max_str_digits" using b(3) sixty_fits by linarith
  then obtain m where m: "fmt02 ?m = Some m" using fmt02_fits [OF b(2)] by blast
  have "?s < 10 ^ int_max_str_digits" using b(5) sixty_fits by linarith
  then obtain sec where s: "fmt02 ?s = Some sec" using fmt02_fits [OF b(4)] by blast
  have d: "display_text r = Some (h @ '':'' @ m @ '':'' @ sec)"
    using h m s by (simp add: display_text_def Let_def)
  have split: "split_colon (h @ '':'' @ m @ '':'' @ sec) = [h, m, sec]"
    using fmt02_no_colon [OF b(1) h] fmt02_no_colon [OF b(2) m] fmt02_no_colon [OF b(4) s]
    by (rule split_colon_three)
  have ints: "map_int [h, m, sec] = Inr [?h, ?m, ?s]"
    using py_int_fmt02 [OF b(1) h] py_int_fmt02 [OF b(2) m] py_int_fmt02 [OF b(4) s] by simp
  have "parse_time (h @ '':'' @ m @ '':'' @ sec) = Inr r"
    unfolding parse_time_def Let_def split ints using hms_sum [of r] by simp
  then show ?thesis using d by simp
qed

text \<open>The text of \<open>int_max_str_digits\<close> nines, and the time that the display cannot show.\<close>

lemma nines_value: "digits_value acc (replicate n (CHR ''9'')) + 1 = (acc + 1) * 10 ^ n"
  by (induction n arbitrary: acc) (simp_all add: digit_val_nine algebra_simps)

lemma py_int_nines:
  assumes "0 < n" "n \<le> int_max_str_digits"
  shows "py_int (replicate n (CHR ''9'')) = Some (10 ^ n - 1)"
proof -
  have "all_digits (replicate n (CHR ''9''))" by (simp add: digit_val_nine)
  moreover have "replicate n (CHR ''9'') \<noteq> []" using assms(1) by simp
  ultimately have "py_int (replicate n (CHR ''9''))
      = Some (int (digits_value 0 (replicate n (CHR ''9''))))"
    using assms(2) by (intro py_int_digits) simp_all
  moreover have "int (digits_value 0 (replicate n (CHR ''9''))) + 1 = 10 ^ n"
  proof -
    have "Suc (digits_value 0 (replicate n (CHR ''9''))) = 10 ^ n"
      using nines_value [of 0 n] by simp
    then have "int (Suc (digits_value 0 (replicate n (CHR ''9'')))) = int (10 ^ n)"
      by (rule arg_cong)
    then show ?thesis by simp
  qed
  ultimately show ?thesis by (simp add: algebra_simps)
qed

lemma py_int_long: "py_int (replicate (Suc int_max_str_digits) (CHR ''0'')) = None"
proof -
  have d: "all_digits (replicate (Suc int_max_str_digits) (CHR ''0''))"
    by (simp add: digit_val_zero)
  have "int_max_str_digits
      < length (filter (\<lambda>c. c \<noteq> CHR ''_'') (replicate (Suc int_max_str_digits) (CHR ''0'')))"
    by (simp only: filter_digits [OF d] length_replicate lessI)
  then have "py_nat (replicate (Suc int_max_str_digits) (CHR ''0'')) = None"
    by (simp only: py_nat_def if_True)
  moreover have "strip (replicate (Suc int_max_str_digits) (CHR ''0''))
      = CHR ''0'' # replicate int_max_str_digits (CHR ''0'')"
    using strip_digits [OF d] by simp
  ultimately show ?thesis by (simp add: py_int_def)
qed

lemma py_int_small:
  shows "py_int ''60'' = Some 60" and "py_int ''0'' = Some 0" and "py_int ''00'' = Some 0"
    and "py_int ''05'' = Some 5" and "py_int ''-1'' = Some (- 1)" and "py_int ''99'' = Some 99"
  by (simp_all add: py_int_def strip_def is_space_def py_nat_def digit_val_def
      int_max_str_digits_def)

lemma display_text_overflow: "display_text (3600 * 10 ^ int_max_str_digits) = None"
proof -
  have "nat \<bar>(10::int) ^ int_max_str_digits\<bar> = (10::nat) ^ int_max_str_digits"
    by (simp add: nat_power_eq)
  then have "length (dec (nat \<bar>(10::int) ^ int_max_str_digits\<bar>)) = Suc int_max_str_digits"
    by (simp only: length_dec_power)
  then have "fmt02 (10 ^ int_max_str_digits) = None"
    by (simp only: fmt02_def lessI if_True)
  then show ?thesis by (simp add: display_text_def)
qed

lemma parse_time_nines:
  "parse_time (replicate int_max_str_digits (CHR ''9'') @ '':60:0'')
     = Inr (3600 * 10 ^ int_max_str_digits)"
proof -
  have pos: "0 < int_max_str_digits" by (simp add: int_max_str_digits_def)
  have "split_colon (replicate int_max_str_digits (CHR ''9'') @ '':60:0'')
      = [replicate int_max_str_digits (CHR ''9''), ''60'', ''0'']"
    using split_colon_three [of "replicate int_max_str_digits (CHR ''9'')" "''60''" "''0''"]
    by simp
  then show ?thesis
    unfolding parse_time_def Let_def
    by (simp add: py_int_nines [OF pos] py_int_small algebra_simps)
qed

lemma length_three: "length xs = 3 \<Longrightarrow> \<exists>a b c. xs = [a, b, c]"
  by (cases xs; simp; cases "tl xs"; simp; cases "tl (tl xs)"; simp)

lemma parse_time_not_three:
  "length (split_colon entry) \<noteq> 3 \<Longrightarrow> parse_time entry = Inl Invalid_time_format"
  by (simp add: parse_time_def)

lemma parse_time_three:
  assumes "split_colon entry = [a, b, c]"
  shows "parse_time entry =
     (case py_int a of None \<Rightarrow> Inl (Int_value_error a)
      | Some h \<Rightarrow> (case py_int b of None \<Rightarrow> Inl (Int_value_error b)
         | Some m \<Rightarrow> (case py_int c of None \<Rightarrow> Inl (Int_value_error c)
            | Some sec \<Rightarrow> Inr (h * 3600 + m * 60 + sec))))"
  using assms by (simp add: parse_time_def split: option.splits)

text \<open>The display shows a positive time exactly when its hours have few enough digits.\<close>

lemma display_text_Some:
  assumes "0 \<le> r" "r div 3600 < 10 ^ int_max_str_digits"
  shows "\<exists>text. display_text r = Some text"
  using display_text_fits [OF assms] by blast

lemma parse_one: "parse_time ''00:00:01'' = Inr 1"
  by (simp add: parse_time_def py_int_def strip_def is_space_def py_nat_def digit_val_def
      int_max_str_digits_def)

lemma custom_one:
  "set_custom_time ''00:00:01'' s = (None, s\<lparr>time_left := 1, time_label := ''00:00:01''\<rparr>)"
  by (simp add: set_custom_time_def parse_one update_time_display_def display_defaults)

section \<open>The claims\<close>

subsection \<open>The cycle of intervals\<close>



subsection \<open>The time left below zero\<close>

text \<open>
  Claim C2, on the code. \<^verbatim>\<open>run_timer\<close> tests \<^verbatim>\<open>time_left > 0\<close> at line 188 and decrements
  at line 192, after the sleep of line 191, without a second test; and \<^verbatim>\<open>reset_timer\<close>
  does not wait for the thread to end. With one second set as custom time, a click on
  start brings the first thread past the test and into the sleep. During the sleep a
  click on reset, one second set again and a click on start bring a second thread past
  the test. Both threads then decrement: the time left is \<open>-1\<close> on a timer that runs and
  is not paused.
\<close>

theorem negative_time_left:
  "reachable (run [Click_custom ''00:00:01'', Click_start,
       Thread 0, Thread 0, Thread 0, Thread 0, Thread 0,
       Click_reset, Click_custom ''00:00:01'', Click_start,
       Thread 1, Thread 1, Thread 1, Thread 1, Thread 1] init)
   \<and> threads (run [Click_custom ''00:00:01'', Click_start,
       Thread 0, Thread 0, Thread 0, Thread 0, Thread 0,
       Click_reset, Click_custom ''00:00:01'', Click_start,
       Thread 1, Thread 1, Thread 1, Thread 1, Thread 1] init) = [L192, L192]
   \<and> time_left (run [Click_custom ''00:00:01'', Click_start,
       Thread 0, Thread 0, Thread 0, Thread 0, Thread 0,
       Click_reset, Click_custom ''00:00:01'', Click_start,
       Thread 1, Thread 1, Thread 1, Thread 1, Thread 1] init) = 1
   \<and> time_left (run [Click_custom ''00:00:01'', Click_start,
       Thread 0, Thread 0, Thread 0, Thread 0, Thread 0,
       Click_reset, Click_custom ''00:00:01'', Click_start,
       Thread 1, Thread 1, Thread 1, Thread 1, Thread 1,
       Thread 0, Thread 1] init) = - 1
   \<and> timer_running (run [Click_custom ''00:00:01'', Click_start,
       Thread 0, Thread 0, Thread 0, Thread 0, Thread 0,
       Click_reset, Click_custom ''00:00:01'', Click_start,
       Thread 1, Thread 1, Thread 1, Thread 1, Thread 1,
       Thread 0, Thread 1] init)
   \<and> \<not> timer_paused (run [Click_custom ''00:00:01'', Click_start,
       Thread 0, Thread 0, Thread 0, Thread 0, Thread 0,
       Click_reset, Click_custom ''00:00:01'', Click_start,
       Thread 1, Thread 1, Thread 1, Thread 1, Thread 1,
       Thread 0, Thread 1] init)"
proof -
  have "reachable (run [Click_custom ''00:00:01'', Click_start,
       Thread 0, Thread 0, Thread 0, Thread 0, Thread 0,
       Click_reset, Click_custom ''00:00:01'', Click_start,
       Thread 1, Thread 1, Thread 1, Thread 1, Thread 1] init)"
    by (rule reachable_run [OF reachable_init])
  then show ?thesis
    by (simp add: init_def start_timer_def reset_timer_default custom_one run_thread_def
        update_time_display_def display_defaults)
qed

subsection \<open>Reset\<close>

text \<open>
  Claim C3. From any state that the program or the methods can reach, whatever the
  mode, the time left, the count and the two flags, \<^verbatim>\<open>reset_timer\<close> raises nothing and
  gives the initial state: mode \<open>''Pomodoro''\<close>, 1500 seconds left, no interval counted, not
  running, not paused, and the labels and buttons as at the start. Only the list of worker
  threads, which is not a field of the object, is as it was.
\<close>

theorem reset_timer_initial:
  assumes "reachable s \<or> serial s"
  shows "reset_timer s = (None, init\<lparr>threads := threads s\<rparr>)
       \<and> current_mode (snd (reset_timer s)) = ''Pomodoro''
       \<and> time_left (snd (reset_timer s)) = pomodoro_time s \<and> pomodoro_time s = 1500
       \<and> pomodoro_count (snd (reset_timer s)) = 0
       \<and> \<not> timer_running (snd (reset_timer s)) \<and> \<not> timer_paused (snd (reset_timer s))"
proof -
  have "pomodoro_time s = 1500 \<and> short_break_time s = 300 \<and> long_break_time s = 1800"
    using assms reachable_durations [of s] serial_durations [of s] by blast
  then show ?thesis
    by (simp add: reset_timer_default init_def)
qed

theorem reset_timer_initial_witness:
  "reachable (run [Click_start, Click_pause] init)
   \<and> timer_running (run [Click_start, Click_pause] init)
   \<and> timer_paused (run [Click_start, Click_pause] init)
   \<and> reset_timer (run [Click_start, Click_pause] init) = (None, init\<lparr>threads := [L187]\<rparr>)
   \<and> time_left (snd (reset_timer (run [Click_start, Click_pause] init))) = 1500"
proof -
  have r: "reachable (run [Click_start, Click_pause] init)"
    by (rule reachable_run [OF reachable_init])
  have f: "timer_running (run [Click_start, Click_pause] init)"
    "timer_paused (run [Click_start, Click_pause] init)"
    "threads (run [Click_start, Click_pause] init) = [L187]"
    "time_left init = 1500"
    by (simp_all add: init_def start_timer_def pause_timer_def)
  show ?thesis
    using r f reset_timer_initial [of "run [Click_start, Click_pause] init"]
    by (simp del: run.simps)
qed

subsection \<open>Pause\<close>

text \<open>
  Claim C5, as the code has it. \<^verbatim>\<open>pause_timer\<close> has no test of \<^verbatim>\<open>timer_running\<close>: called on
  the initial state, which is not running, it sets \<^verbatim>\<open>timer_paused\<close> and changes the text of
  the button.
\<close>

theorem pause_timer_idle_counterexample:
  "\<not> timer_running init \<and> timer_paused (pause_timer init)
   \<and> \<not> timer_running (pause_timer init) \<and> pause_timer init \<noteq> init"
  by (simp add: pause_timer_def init_def)

text \<open>
  Claim C5, amended. In every state the program can reach, paused implies running, and
  the pause button is enabled exactly when the timer runs: \<^verbatim>\<open>setup_ui\<close> and \<^verbatim>\<open>reset_timer\<close>
  disable it and \<^verbatim>\<open>start_timer\<close> enables it. So a click on the pause button of a timer
  that is not running changes no field.
\<close>

theorem pause_gated_by_button:
  assumes "reachable s"
  shows "(timer_paused s \<longrightarrow> timer_running s)
       \<and> (pause_button s = Normal \<longleftrightarrow> timer_running s)
       \<and> (\<not> timer_running s \<longrightarrow> step Click_pause s = s)"
  using reachable_buttons [OF assms] by auto

theorem pause_gated_by_button_witness:
  "reachable (run [Click_start, Click_pause] init)
   \<and> timer_paused (run [Click_start, Click_pause] init)
   \<and> timer_running (run [Click_start, Click_pause] init)
   \<and> pause_button (run [Click_start, Click_pause] init) = Normal
   \<and> reachable init \<and> \<not> timer_running init \<and> step Click_pause init = init"
proof -
  have r: "reachable (run [Click_start, Click_pause] init)"
    by (rule reachable_run [OF reachable_init])
  have f: "timer_paused (run [Click_start, Click_pause] init)" "\<not> timer_running init"
    by (simp_all add: init_def start_timer_def pause_timer_def)
  show ?thesis
    using r f reachable_init pause_gated_by_button [OF r] pause_gated_by_button [OF reachable_init]
    by blast
qed

text \<open>
  Claim C6, on the code. \<^verbatim>\<open>run_timer\<close> tests \<^verbatim>\<open>timer_paused\<close> at line 189 and decrements at
  line 192, after the sleep of line 191, without a second test. After a click on start
  the thread reaches the sleep in five statements, with 1500 seconds left. A click on
  pause during the sleep sets the flag; the thread then wakes up and decrements while the
  timer is paused. A second click on pause gives the flag back and finds 1499 seconds.
\<close>

theorem tick_while_paused:
  "threads (run [Click_start, Thread 0, Thread 0, Thread 0, Thread 0, Thread 0] init) = [L192]
   \<and> time_left (run [Click_start, Thread 0, Thread 0, Thread 0, Thread 0, Thread 0,
        Click_pause] init) = 1500
   \<and> timer_paused (run [Click_start, Thread 0, Thread 0, Thread 0, Thread 0, Thread 0,
        Click_pause] init)
   \<and> timer_running (run [Click_start, Thread 0, Thread 0, Thread 0, Thread 0, Thread 0,
        Click_pause] init)
   \<and> time_left (run [Click_start, Thread 0, Thread 0, Thread 0, Thread 0, Thread 0,
        Click_pause, Thread 0] init) = 1499
   \<and> timer_paused (run [Click_start, Thread 0, Thread 0, Thread 0, Thread 0, Thread 0,
        Click_pause, Thread 0] init)
   \<and> time_left (run [Click_start, Thread 0, Thread 0, Thread 0, Thread 0, Thread 0,
        Click_pause, Thread 0, Click_pause] init) = 1499
   \<and> \<not> timer_paused (run [Click_start, Thread 0, Thread 0, Thread 0, Thread 0, Thread 0,
        Click_pause, Thread 0, Click_pause] init)"
  by (simp add: init_def start_timer_def pause_timer_def run_thread_def update_time_display_def
      display_defaults)

subsection \<open>Start\<close>

text \<open>
  Claim C7. \<^verbatim>\<open>start_timer\<close> twice is \<^verbatim>\<open>start_timer\<close> once. On a timer that runs, paused or
  not, it changes nothing, so no second thread is started. On a timer that does not run it
  sets the running flag and starts one thread, and leaves the mode, the time left, the
  paused flag and the count as they were.
\<close>

theorem start_timer_idempotent:
  "start_timer (start_timer s) = start_timer s
   \<and> (timer_running s \<longrightarrow> start_timer s = s)
   \<and> (\<not> timer_running s \<longrightarrow>
        timer_running (start_timer s)
        \<and> current_mode (start_timer s) = current_mode s
        \<and> time_left (start_timer s) = time_left s
        \<and> timer_paused (start_timer s) = timer_paused s
        \<and> pomodoro_count (start_timer s) = pomodoro_count s
        \<and> threads (start_timer s) = threads s @ [L187])"
  by (simp add: start_timer_def)

theorem start_timer_idempotent_witness:
  "\<not> timer_running init \<and> timer_running (start_timer init)
   \<and> threads (start_timer init) = [L187]
   \<and> start_timer (start_timer init) = start_timer init
   \<and> threads (start_timer (start_timer init)) = [L187]"
proof -
  have f: "\<not> timer_running init" "threads init = []"
    by (simp_all add: init_def)
  show ?thesis
    using f start_timer_idempotent [of init] start_timer_idempotent [of "start_timer init"]
    by simp
qed

subsection \<open>A tick that is pending at a reset\<close>

text \<open>
  Claim C9, on the code. \<^verbatim>\<open>reset_timer\<close> stops the worker thread only through the flag
  \<^verbatim>\<open>timer_running\<close>, which \<^verbatim>\<open>run_timer\<close> reads at lines 187, 188 and 196 and not between
  the sleep of line 191 and the decrement of line 192. After a click on start the thread
  reaches the sleep in five statements. A click on reset during the sleep sets the time
  left to 1500 and the flag to false. The thread then wakes up and decrements: 1499
  seconds are left on a timer that does not run and was not started again, and the thread
  ends only afterwards. When start is clicked during the same sleep, the old thread finds
  the flag set again and goes on counting beside the new thread.
\<close>

theorem stale_tick_after_reset:
  "threads (run [Click_start, Thread 0, Thread 0, Thread 0, Thread 0, Thread 0] init) = [L192]
   \<and> time_left (run [Click_start, Thread 0, Thread 0, Thread 0, Thread 0, Thread 0,
        Click_reset] init) = 1500
   \<and> time_left (run [Click_start, Thread 0, Thread 0, Thread 0, Thread 0, Thread 0,
        Click_reset, Thread 0] init) = 1499
   \<and> \<not> timer_running (run [Click_start, Thread 0, Thread 0, Thread 0, Thread 0, Thread 0,
        Click_reset, Thread 0] init)
   \<and> threads (run [Click_start, Thread 0, Thread 0, Thread 0, Thread 0, Thread 0,
        Click_reset, Thread 0, Thread 0, Thread 0, Thread 0] init) = [Done]
   \<and> time_left (run [Click_start, Thread 0, Thread 0, Thread 0, Thread 0, Thread 0,
        Click_reset, Thread 0, Thread 0, Thread 0, Thread 0] init) = 1499
   \<and> threads (run [Click_start, Thread 0, Thread 0, Thread 0, Thread 0, Thread 0,
        Click_reset, Click_start, Thread 0, Thread 0, Thread 1, Thread 1] init) = [L189, L189]
   \<and> time_left (run [Click_start, Thread 0, Thread 0, Thread 0, Thread 0, Thread 0,
        Click_reset, Click_start, Thread 0, Thread 0, Thread 1, Thread 1] init) = 1499"
  by (simp add: init_def start_timer_def reset_timer_default run_thread_def
      update_time_display_def display_defaults)

subsection \<open>Setting a custom time\<close>

text \<open>
  Claim C4, as the code has it, at two texts of three segments of digits with a positive
  total. In the first the hours are one zero more than \<open>int_max_str_digits\<close>: \<^verbatim>\<open>int\<close>
  refuses a text of that many digits, so the error box is shown and the state is as it
  was, although the total would be 5. In the second the hours are \<open>int_max_str_digits\<close>
  nines, the minutes \<open>60\<close> and the seconds \<open>0\<close>: \<^verbatim>\<open>int\<close> accepts the three segments and the
  total is 3600 times \<open>10 ^ int_max_str_digits\<close>. Line 280 assigns the total to the time
  left; then the formatting of its hours raises \<^verbatim>\<open>ValueError\<close> at line 281, inside the
  \<^verbatim>\<open>try\<close> block, and the error box is shown.
\<close>

theorem valid_text_shows_error:
  "split_colon (replicate (Suc int_max_str_digits) (CHR ''0'') @ '':00:05'')
     = [replicate (Suc int_max_str_digits) (CHR ''0''), ''00'', ''05'']
   \<and> py_int (replicate (Suc int_max_str_digits) (CHR ''0'')) = None
   \<and> set_custom_time (replicate (Suc int_max_str_digits) (CHR ''0'') @ '':00:05'') init
       = (Some (Int_value_error (replicate (Suc int_max_str_digits) (CHR ''0''))), init)
   \<and> split_colon (replicate int_max_str_digits (CHR ''9'') @ '':60:0'')
     = [replicate int_max_str_digits (CHR ''9''), ''60'', ''0'']
   \<and> py_int (replicate int_max_str_digits (CHR ''9'')) = Some (10 ^ int_max_str_digits - 1)
   \<and> py_int ''60'' = Some 60 \<and> py_int ''0'' = Some 0
   \<and> (0::int) < (10 ^ int_max_str_digits - 1) * 3600 + 60 * 60 + 0
   \<and> set_custom_time (replicate int_max_str_digits (CHR ''9'') @ '':60:0'') init
       = (Some Exceeds_digit_limit, init\<lparr>time_left := 3600 * 10 ^ int_max_str_digits\<rparr>)
   \<and> time_left init = 1500"
proof -
  have pos: "0 < int_max_str_digits" by (simp add: int_max_str_digits_def)
  have sz: "split_colon (replicate (Suc int_max_str_digits) (CHR ''0'') @ '':00:05'')
      = [replicate (Suc int_max_str_digits) (CHR ''0''), ''00'', ''05'']"
    using split_colon_three [of "replicate (Suc int_max_str_digits) (CHR ''0'')" "''00''" "''05''"]
    by simp
  have scz: "set_custom_time (replicate (Suc int_max_str_digits) (CHR ''0'') @ '':00:05'') init
       = (Some (Int_value_error (replicate (Suc int_max_str_digits) (CHR ''0''))), init)"
    using parse_time_three [OF sz] py_int_long by (simp add: set_custom_time_def)
  have sp: "split_colon (replicate int_max_str_digits (CHR ''9'') @ '':60:0'')
      = [replicate int_max_str_digits (CHR ''9''), ''60'', ''0'']"
    using split_colon_three [of "replicate int_max_str_digits (CHR ''9'')" "''60''" "''0''"]
    by simp
  have "(1::int) \<le> 10 ^ int_max_str_digits" by simp
  then have tot: "(0::int) < (10 ^ int_max_str_digits - 1) * 3600 + 60 * 60 + 0" by simp
  have big: "(0::int) < 3600 * 10 ^ int_max_str_digits" by simp
  have sct: "set_custom_time (replicate int_max_str_digits (CHR ''9'') @ '':60:0'') init
       = (Some Exceeds_digit_limit, init\<lparr>time_left := 3600 * 10 ^ int_max_str_digits\<rparr>)"
    unfolding set_custom_time_def parse_time_nines
    using big by (simp add: update_time_display_def display_text_overflow)
  show ?thesis
    using sz py_int_long scz sp py_int_nines [OF pos] py_int_small tot sct
    by (simp add: init_def)
qed

text \<open>
  Claim C4, amended. For every text of the entry and every state: when the text splits at
  the colons into exactly three segments that \<^verbatim>\<open>int\<close> accepts, the total of hours times
  3600, minutes times 60 and seconds is positive, and the hours of the total are below
  \<open>10 ^ int_max_str_digits\<close>, so that the display can show them, \<^verbatim>\<open>set_custom_time\<close> shows no
  error and sets the time left to that total and the time label to its text. When the
  text does not split into three such segments with a positive total, it shows an error
  and leaves the whole state as it was; with another number of segments than three the
  error is the one of the format. In every case the mode, the two flags and the count
  are as they were.
\<close>

theorem set_custom_time_valid_or_unchanged:
  "(split_colon entry = [a, b, c] \<and> py_int a = Some h \<and> py_int b = Some m
      \<and> py_int c = Some sec \<and> 0 < h * 3600 + m * 60 + sec
      \<and> (h * 3600 + m * 60 + sec) div 3600 < 10 ^ int_max_str_digits \<longrightarrow>
        (\<exists>shown. display_text (h * 3600 + m * 60 + sec) = Some shown
           \<and> set_custom_time entry s
               = (None, s\<lparr>time_left := h * 3600 + m * 60 + sec, time_label := shown\<rparr>))
        \<and> fst (set_custom_time entry s) = None
        \<and> time_left (snd (set_custom_time entry s)) = h * 3600 + m * 60 + sec)
   \<and> ((\<nexists>a b c h m sec. split_colon entry = [a, b, c] \<and> py_int a = Some h
          \<and> py_int b = Some m \<and> py_int c = Some sec \<and> 0 < h * 3600 + m * 60 + sec) \<longrightarrow>
        (\<exists>e. set_custom_time entry s = (Some e, s)))
   \<and> (length (split_colon entry) \<noteq> 3 \<longrightarrow>
        set_custom_time entry s = (Some Invalid_time_format, s))
   \<and> current_mode (snd (set_custom_time entry s)) = current_mode s
   \<and> timer_running (snd (set_custom_time entry s)) = timer_running s
   \<and> timer_paused (snd (set_custom_time entry s)) = timer_paused s
   \<and> pomodoro_count (snd (set_custom_time entry s)) = pomodoro_count s"
proof -
  have valid: "(\<exists>shown. display_text (h * 3600 + m * 60 + sec) = Some shown
           \<and> set_custom_time entry s
               = (None, s\<lparr>time_left := h * 3600 + m * 60 + sec, time_label := shown\<rparr>))
        \<and> fst (set_custom_time entry s) = None
        \<and> time_left (snd (set_custom_time entry s)) = h * 3600 + m * 60 + sec"
    if ok: "split_colon entry = [a, b, c] \<and> py_int a = Some h \<and> py_int b = Some m
      \<and> py_int c = Some sec \<and> 0 < h * 3600 + m * 60 + sec
      \<and> (h * 3600 + m * 60 + sec) div 3600 < 10 ^ int_max_str_digits"
  proof -
    have p: "parse_time entry = Inr (h * 3600 + m * 60 + sec)"
      using ok parse_time_three [of entry a b c] by simp
    have "0 \<le> h * 3600 + m * 60 + sec" using ok by simp
    then obtain shown where d: "display_text (h * 3600 + m * 60 + sec) = Some shown"
      using ok display_text_Some [of "h * 3600 + m * 60 + sec"] by blast
    have "set_custom_time entry s
        = (None, s\<lparr>time_left := h * 3600 + m * 60 + sec, time_label := shown\<rparr>)"
      using ok p d by (simp add: set_custom_time_def update_time_display_def)
    then show ?thesis using d by simp
  qed
  have invalid: "\<exists>e. set_custom_time entry s = (Some e, s)"
    if no: "\<nexists>a b c h m sec. split_colon entry = [a, b, c] \<and> py_int a = Some h
          \<and> py_int b = Some m \<and> py_int c = Some sec \<and> 0 < h * 3600 + m * 60 + sec"
  proof (cases "length (split_colon entry) = 3")
    case False
    then show ?thesis by (simp add: set_custom_time_def parse_time_not_three)
  next
    case True
    then obtain a b c where abc: "split_colon entry = [a, b, c]"
      using length_three by blast
    show ?thesis
      using no abc parse_time_three [OF abc]
      by (auto simp: set_custom_time_def split: option.splits)
  qed
  have format: "set_custom_time entry s = (Some Invalid_time_format, s)"
    if "length (split_colon entry) \<noteq> 3"
    using that by (simp add: set_custom_time_def parse_time_not_three)
  show ?thesis
    using valid invalid format by (simp add: set_custom_time_frame)
qed

theorem set_custom_time_valid_or_unchanged_witness:
  "split_colon ''00:00:05'' = [''00'', ''00'', ''05''] \<and> py_int ''00'' = Some 0
   \<and> py_int ''05'' = Some 5 \<and> (0::int) < 0 * 3600 + 0 * 60 + 5
   \<and> ((0::int) * 3600 + 0 * 60 + 5) div 3600 < 10 ^ int_max_str_digits
   \<and> set_custom_time ''00:00:05'' init
       = (None, init\<lparr>time_left := 5, time_label := ''00:00:05''\<rparr>)
   \<and> time_left (snd (set_custom_time ''00:00:05'' init)) = 5
   \<and> (\<exists>e. set_custom_time ''00:00:00'' init = (Some e, init))
   \<and> set_custom_time ''1:2'' init = (Some Invalid_time_format, init)"
proof -
  have sp: "split_colon ''00:00:05'' = [''00'', ''00'', ''05'']"
    "split_colon ''00:00:00'' = [''00'', ''00'', ''00'']"
    "length (split_colon ''1:2'') \<noteq> 3"
    by simp_all
  note pi = py_int_small(3) py_int_small(4)
  have d: "display_text 5 = Some ''00:00:05''"
    by (simp add: display_text_def fmt02_def dec.simps digit_char_def int_max_str_digits_def)
  have pre: "split_colon ''00:00:05'' = [''00'', ''00'', ''05''] \<and> py_int ''00'' = Some 0
      \<and> py_int ''00'' = Some 0 \<and> py_int ''05'' = Some 5
      \<and> (0::int) < 0 * 3600 + 0 * 60 + 5
      \<and> ((0::int) * 3600 + 0 * 60 + 5) div 3600 < 10 ^ int_max_str_digits"
    using sp(1) pi by simp
  have no: "\<nexists>a b c h m sec. split_colon ''00:00:00'' = [a, b, c] \<and> py_int a = Some h
      \<and> py_int b = Some m \<and> py_int c = Some sec \<and> 0 < h * 3600 + m * 60 + sec"
    unfolding sp using pi(1) by auto
  have one: "set_custom_time ''00:00:05'' init
        = (None, init\<lparr>time_left := 5, time_label := ''00:00:05''\<rparr>)
      \<and> time_left (snd (set_custom_time ''00:00:05'' init)) = 5"
    using conjunct1 [OF set_custom_time_valid_or_unchanged
        [of "''00:00:05''" "''00''" "''00''" "''05''" 0 0 5 init], THEN mp, OF pre] d
    by simp
  have two: "\<exists>e. set_custom_time ''00:00:00'' init = (Some e, init)"
    using no set_custom_time_valid_or_unchanged [of "''00:00:00''" _ _ _ _ _ _ init] by blast
  have three: "set_custom_time ''1:2'' init = (Some Invalid_time_format, init)"
    using sp(3) set_custom_time_valid_or_unchanged [of "''1:2''" _ _ _ _ _ _ init] by blast
  show ?thesis using pre one two three by blast
qed

subsection \<open>Negative segments\<close>

text \<open>
  Claim C8, as the code has it. The text \<open>''00:-1:99''\<close> has three segments, the second is
  the negative integer \<open>-1\<close>, and the total is \<open>39\<close>: \<^verbatim>\<open>set_custom_time\<close> shows no error and
  sets the time left to 39. The text is one that the handler of the key release leaves as
  it is.
\<close>

theorem negative_segment_accepted:
  "split_colon ''00:-1:99'' = [''00'', ''-1'', ''99''] \<and> py_int ''-1'' = Some (- 1)
   \<and> format_custom_time ''00:-1:99'' = ''00:-1:99''
   \<and> fst (set_custom_time ''00:-1:99'' init) = None
   \<and> time_left (snd (set_custom_time ''00:-1:99'' init)) = 39"
proof -
  have f: "format_custom_time ''00:-1:99'' = ''00:-1:99''"
    by code_simp
  have p: "parse_time ''00:-1:99'' = Inr 39"
    by (simp add: parse_time_def py_int_small)
  have d: "display_text 39 = Some ''00:00:39''"
    by (simp add: display_text_def fmt02_def dec.simps digit_char_def int_max_str_digits_def)
  show ?thesis
    using f by (simp add: set_custom_time_def p d update_time_display_def py_int_small)
qed

text \<open>
  Claim C8, amended. For a text of three segments that \<^verbatim>\<open>int\<close> accepts, of whatever sign,
  only the total decides: when it is zero or negative \<^verbatim>\<open>set_custom_time\<close> shows the error
  that the time must be greater than zero and leaves the state as it was, and when it is
  positive, with hours below \<open>10 ^ int_max_str_digits\<close> so that the display can show them,
  it shows no error and sets the time left to the total.
\<close>

theorem total_decides:
  assumes "split_colon entry = [a, b, c]" "py_int a = Some h" "py_int b = Some m"
    "py_int c = Some sec"
  shows "(0 < h * 3600 + m * 60 + sec
            \<and> (h * 3600 + m * 60 + sec) div 3600 < 10 ^ int_max_str_digits \<longrightarrow>
            (\<exists>shown. set_custom_time entry s
               = (None, s\<lparr>time_left := h * 3600 + m * 60 + sec, time_label := shown\<rparr>)))
       \<and> (h * 3600 + m * 60 + sec \<le> 0 \<longrightarrow>
            set_custom_time entry s = (Some Time_must_be_greater_than_zero, s))"
proof -
  have p: "parse_time entry = Inr (h * 3600 + m * 60 + sec)"
    using assms parse_time_three [OF assms(1)] by simp
  have "\<exists>shown. set_custom_time entry s
      = (None, s\<lparr>time_left := h * 3600 + m * 60 + sec, time_label := shown\<rparr>)"
    if pos: "0 < h * 3600 + m * 60 + sec"
      and fits: "(h * 3600 + m * 60 + sec) div 3600 < 10 ^ int_max_str_digits"
  proof -
    have "0 \<le> h * 3600 + m * 60 + sec" using pos by simp
    then obtain shown where "display_text (h * 3600 + m * 60 + sec) = Some shown"
      using display_text_Some [OF _ fits] by blast
    then have "set_custom_time entry s
        = (None, s\<lparr>time_left := h * 3600 + m * 60 + sec, time_label := shown\<rparr>)"
      using pos p by (simp add: set_custom_time_def update_time_display_def)
    then show ?thesis by (rule exI)
  qed
  then show ?thesis using p by (simp add: set_custom_time_def)
qed

theorem total_decides_witness:
  "split_colon ''00:-1:99'' = [''00'', ''-1'', ''99''] \<and> py_int ''00'' = Some 0
   \<and> py_int ''-1'' = Some (- 1) \<and> py_int ''99'' = Some 99
   \<and> (0::int) < 0 * 3600 + (- 1) * 60 + 99
   \<and> ((0::int) * 3600 + (- 1) * 60 + 99) div 3600 < 10 ^ int_max_str_digits
   \<and> (\<exists>shown. set_custom_time ''00:-1:99'' init
        = (None, init\<lparr>time_left := 39, time_label := shown\<rparr>))
   \<and> split_colon ''00:-1:00'' = [''00'', ''-1'', ''00'']
   \<and> (0::int) * 3600 + (- 1) * 60 + 0 \<le> 0
   \<and> set_custom_time ''00:-1:00'' init = (Some Time_must_be_greater_than_zero, init)"
proof -
  have sp: "split_colon ''00:-1:99'' = [''00'', ''-1'', ''99'']"
    "split_colon ''00:-1:00'' = [''00'', ''-1'', ''00'']"
    by simp_all
  note pi = py_int_small(3) py_int_small(5) py_int_small(6)
  have a: "(0::int) < 0 * 3600 + (- 1) * 60 + 99
      \<and> ((0::int) * 3600 + (- 1) * 60 + 99) div 3600 < 10 ^ int_max_str_digits"
    by simp
  have one: "\<exists>shown. set_custom_time ''00:-1:99'' init
      = (None, init\<lparr>time_left := 39, time_label := shown\<rparr>)"
    using a total_decides [OF sp(1) pi(1) pi(2) pi(3), of init] by simp
  have two: "set_custom_time ''00:-1:00'' init = (Some Time_must_be_greater_than_zero, init)"
    using total_decides [OF sp(2) pi(1) pi(2) pi(1), of init] by simp
  show ?thesis using sp pi a one two by simp
qed

subsection \<open>The display read back\<close>

text \<open>
  Claim C10, as the code has it. The time of 3600 times \<open>10 ^ int_max_str_digits\<close> seconds
  is positive, and it is the time left after the text of claim C4 was set. Its hours have
  one digit more than the interpreter converts: the formatting of line 203 raises
  \<^verbatim>\<open>ValueError\<close>, and there is no text to read back.
\<close>

theorem display_overflow:
  "(0::int) < 3600 * 10 ^ int_max_str_digits
   \<and> time_left (run [Click_custom (replicate int_max_str_digits (CHR ''9'') @ '':60:0'')] init)
       = 3600 * 10 ^ int_max_str_digits
   \<and> display_text (3600 * 10 ^ int_max_str_digits) = None
   \<and> update_time_display (init\<lparr>time_left := 3600 * 10 ^ int_max_str_digits\<rparr>) = None"
proof -
  have big: "(0::int) < 3600 * 10 ^ int_max_str_digits" by simp
  have "set_custom_time (replicate int_max_str_digits (CHR ''9'') @ '':60:0'') init
       = (Some Exceeds_digit_limit, init\<lparr>time_left := 3600 * 10 ^ int_max_str_digits\<rparr>)"
    unfolding set_custom_time_def parse_time_nines
    using big by (simp add: update_time_display_def display_text_overflow)
  moreover have "custom_button init = Normal" by (simp add: init_def)
  ultimately show ?thesis
    using big by (simp add: update_time_display_def display_text_overflow)
qed

text \<open>
  Claim C10, amended. For a time \<open>r\<close> that is not negative, the hours, minutes and seconds
  that \<^verbatim>\<open>update_time_display\<close> computes are not negative, the minutes and the seconds are
  below 60, the seconds are \<open>r mod 60\<close>, and together they give \<open>r\<close> back. For a positive \<open>r\<close>
  whose hours are below \<open>10 ^ int_max_str_digits\<close> the formatting raises nothing, and the
  text that the time label then shows, given to \<^verbatim>\<open>set_custom_time\<close> in any state, is
  accepted and sets the time left to \<open>r\<close>.
\<close>

theorem display_round_trip:
  "(0 \<le> r \<longrightarrow>
      0 \<le> r div 3600 \<and> 0 \<le> r mod 3600 div 60 \<and> r mod 3600 div 60 < 60
      \<and> 0 \<le> r mod 3600 mod 60 \<and> r mod 3600 mod 60 < 60 \<and> r mod 3600 mod 60 = r mod 60
      \<and> r div 3600 * 3600 + r mod 3600 div 60 * 60 + r mod 3600 mod 60 = r)
   \<and> (0 < r \<and> r div 3600 < 10 ^ int_max_str_digits \<longrightarrow>
      (\<exists>shown. display_text r = Some shown
         \<and> update_time_display (s\<lparr>time_left := r\<rparr>)
             = Some (s\<lparr>time_left := r, time_label := shown\<rparr>)
         \<and> set_custom_time shown s' = (None, s'\<lparr>time_left := r, time_label := shown\<rparr>)
         \<and> time_left (snd (set_custom_time shown s')) = r))"
proof -
  have a: "0 \<le> r div 3600 \<and> 0 \<le> r mod 3600 div 60 \<and> r mod 3600 div 60 < 60
      \<and> 0 \<le> r mod 3600 mod 60 \<and> r mod 3600 mod 60 < 60 \<and> r mod 3600 mod 60 = r mod 60
      \<and> r div 3600 * 3600 + r mod 3600 div 60 * 60 + r mod 3600 mod 60 = r"
    if "0 \<le> r"
    using hms_bounds [OF that] hms_sum [of r] by blast
  have b: "\<exists>shown. display_text r = Some shown
         \<and> update_time_display (s\<lparr>time_left := r\<rparr>)
             = Some (s\<lparr>time_left := r, time_label := shown\<rparr>)
         \<and> set_custom_time shown s' = (None, s'\<lparr>time_left := r, time_label := shown\<rparr>)
         \<and> time_left (snd (set_custom_time shown s')) = r"
    if pos: "0 < r" and fits: "r div 3600 < 10 ^ int_max_str_digits"
  proof -
    have "0 \<le> r" using pos by simp
    then obtain shown where d: "display_text r = Some shown" and p: "parse_time shown = Inr r"
      using display_text_fits [OF _ fits] by blast
    have "set_custom_time shown s' = (None, s'\<lparr>time_left := r, time_label := shown\<rparr>)"
      using pos d p by (simp add: set_custom_time_def update_time_display_def)
    then show ?thesis using d by (simp add: update_time_display_def)
  qed
  show ?thesis using a b by blast
qed

theorem display_round_trip_witness:
  "(0::int) < 3725 \<and> (3725::int) div 3600 < 10 ^ int_max_str_digits
   \<and> display_text 3725 = Some ''01:02:05''
   \<and> update_time_display (init\<lparr>time_left := 3725\<rparr>)
       = Some (init\<lparr>time_left := 3725, time_label := ''01:02:05''\<rparr>)
   \<and> set_custom_time ''01:02:05'' init
       = (None, init\<lparr>time_left := 3725, time_label := ''01:02:05''\<rparr>)
   \<and> time_left (snd (set_custom_time ''01:02:05'' init)) = 3725
   \<and> (3725::int) div 3600 = 1 \<and> (3725::int) mod 3600 div 60 = 2 \<and> (3725::int) mod 60 = 5"
proof -
  have d: "display_text 3725 = Some ''01:02:05''"
    by (simp add: display_text_def fmt02_def dec.simps digit_char_def int_max_str_digits_def)
  have "(1::int) < 10 ^ int_max_str_digits" using sixty_fits by linarith
  then have p: "(0::int) < 3725 \<and> (3725::int) div 3600 < 10 ^ int_max_str_digits" by simp
  show ?thesis
    using p d display_round_trip [of 3725 init init] by simp
qed

end
